theory Spec2Isabelle
  imports Main
begin

section \<open>Values\<close>

text \<open>
  The offline layer (src/lib/offline.ts and the storage module it imports as
  `./storage`) handles rows of the remote tables and keeps them as JSON text in a
  key-value store. A row is an object: a list of named fields, in insertion order. The
  values of the fields are not inspected, apart from the comparison of \<open>id\<close> with a string;
  numbers in them are taken to be integers.
\<close>

datatype json =
    JNull
  | JBool bool
  | JNum int
  | JStr string
  | JArr "json list"
  | JObj "(string \<times> json) list"

type_synonym obj = "(string \<times> json) list"

text \<open>
  Assigning a property keeps the position of a property that exists and appends a new one,
  as JavaScript does; \<open>spread\<close> is the object literal \<open>{...base, k1: v1, ...}\<close> and, with two
  objects, \<open>{...a, ...b}\<close>.
\<close>

fun assign :: "string \<Rightarrow> json \<Rightarrow> obj \<Rightarrow> obj" where
  "assign k v [] = [(k, v)]"
| "assign k v (p # ps) = (if fst p = k then (k, v) # ps else p # assign k v ps)"

definition spread :: "obj \<Rightarrow> obj \<Rightarrow> obj" where
  "spread base ext = fold (\<lambda>(k, v). assign k v) ext base"

text \<open>Property access \<open>o.k\<close>: \<open>None\<close> is JavaScript's undefined.\<close>

definition get_prop :: "obj \<Rightarrow> string \<Rightarrow> json option" where
  "get_prop ob k = map_of ob k"

text \<open>A template literal renders a time, an integer of milliseconds, in decimal.\<close>

fun string_of_nat :: "nat \<Rightarrow> string" where
  "string_of_nat n =
     (if n < 10 then [''0123456789'' ! n]
      else string_of_nat (n div 10) @ [''0123456789'' ! (n mod 10)])"

declare string_of_nat.simps [simp del]

definition string_of_int :: "int \<Rightarrow> string" where
  "string_of_int i = (if i < 0 then CHR ''-'' # string_of_nat (nat (- i)) else string_of_nat (nat i))"

section \<open>The key-value store\<close>

text \<open>
  \<open>storeData\<close> writes \<open>JSON.stringify value\<close> under a key and \<open>getData\<close> parses what it
  reads, so the store is a map from keys to values. Two kinds of value are ever written:
  a cache item \<open>{data, timestamp, ttl}\<close> (by \<open>cacheData\<close>) and the list of queued
  operations (by \<open>queueOperation\<close> and \<open>removeQueuedOperation\<close>). Times are epoch
  milliseconds. The platform store is taken to be reliable: the \<open>catch\<close> branches of
  \<open>storeData\<close>, \<open>getData\<close> and \<open>removeData\<close>, which log and carry on, are not modelled.

  The fields of a queued operation are \<open>type\<close>, \<open>table\<close>, \<open>data\<close>, \<open>id\<close> and \<open>timestamp\<close>
  in the source; here they carry a prefix, since \<open>data\<close> and \<open>timestamp\<close> are also fields of
  a cache item and \<open>id\<close> is the identity function of HOL. The type and the table are
  strings, as they are in the stored JSON; the data of an operation is the row, or the
  changes to a row, that the caller passed; the id of an operation to be queued is
  optional.
\<close>

record 'a cacheItem =
  data :: 'a
  timestamp :: int
  ttl :: int

record operation =
  op_type :: string
  op_table :: string
  op_data :: obj
  op_id :: "string option"

record queued =
  q_type :: string
  q_table :: string
  q_data :: obj
  q_id :: string
  q_timestamp :: int

datatype 'a stored = CacheItem "'a cacheItem" | Queue "queued list"

type_synonym 'a storage = "string \<Rightarrow> 'a stored option"

definition storeData :: "string \<Rightarrow> 'a stored \<Rightarrow> 'a storage \<Rightarrow> 'a storage" where
  "storeData key v s = s(key \<mapsto> v)"

definition getData :: "string \<Rightarrow> 'a storage \<Rightarrow> 'a stored option" where
  "getData key s = s key"

definition removeData :: "string \<Rightarrow> 'a storage \<Rightarrow> 'a storage" where
  "removeData key s = s(key := None)"

section \<open>Cache manager\<close>

text \<open>
  \<open>cacheData key data ttl\<close>, at time \<open>now\<close>; \<open>ttl = None\<close> is the call without the third
  argument, which takes the default of one hour.
\<close>

definition cacheData :: "int \<Rightarrow> string \<Rightarrow> 'a \<Rightarrow> int option \<Rightarrow> 'a storage \<Rightarrow> 'a storage" where
  "cacheData now key d ttl_arg s =
     (let cacheItem = \<lparr>data = d, timestamp = now,
                       ttl = (case ttl_arg of None \<Rightarrow> 3600000 | Some t \<Rightarrow> t)\<rparr>
      in storeData (''cache_'' @ key) (CacheItem cacheItem) s)"

text \<open>
  \<open>getCachedData key\<close>, at time \<open>now\<close>, returns the value (\<open>None\<close> is null) and the
  store it leaves. An entry that is not a cache item has no \<open>data\<close>, \<open>timestamp\<close> or
  \<open>ttl\<close>: the comparison on undefined is false and the source returns the undefined
  \<open>data\<close>, which its callers treat as null.
\<close>

definition getCachedData :: "int \<Rightarrow> string \<Rightarrow> 'a storage \<Rightarrow> 'a option \<times> 'a storage" where
  "getCachedData now key s =
     (case getData (''cache_'' @ key) s of
        None \<Rightarrow> (None, s)
      | Some (Queue q) \<Rightarrow> (None, s)
      | Some (CacheItem cacheItem) \<Rightarrow>
          (let isExpired = now - timestamp cacheItem > ttl cacheItem
           in if isExpired then (None, removeData (''cache_'' @ key) s)
              else (Some (data cacheItem), s)))"

section \<open>Mutation queue\<close>

text \<open>
  \<open>queueOperation\<close> at time \<open>now\<close>; \<open>random\<close> is the rendering of \<open>Math.random()\<close>. The
  id of the operation is kept when it is truthy (given and not the empty string) and
  generated otherwise. An entry under \<open>offline_queue\<close> that is not a list has no
  \<open>push\<close> and no \<open>filter\<close>: the call raises a TypeError, which the \<open>catch\<close> logs, and
  the store stays as it was.
\<close>

definition queueOperation :: "int \<Rightarrow> string \<Rightarrow> operation \<Rightarrow> 'a storage \<Rightarrow> 'a storage" where
  "queueOperation now random operation s =
     (let pushed = \<lparr>q_type = op_type operation, q_table = op_table operation,
                     q_data = op_data operation,
                     q_id = (case op_id operation of
                               Some i \<Rightarrow> if i \<noteq> [] then i
                                         else ''temp_'' @ string_of_int now @ ''_'' @ random
                             | None \<Rightarrow> ''temp_'' @ string_of_int now @ ''_'' @ random),
                     q_timestamp = now\<rparr>
      in case getData ''offline_queue'' s of
           None \<Rightarrow> storeData ''offline_queue'' (Queue ([] @ [pushed])) s
         | Some (Queue queue) \<Rightarrow> storeData ''offline_queue'' (Queue (queue @ [pushed])) s
         | Some (CacheItem c) \<Rightarrow> s)"

text \<open>
  \<open>getQueuedOperations\<close> returns the entry, or the empty list when there is none. An entry
  that is not a list is returned as it is by the source; its one caller iterates over the
  result, which raises in that case and ends the caller, as an empty list does.
\<close>

definition getQueuedOperations :: "'a storage \<Rightarrow> queued list" where
  "getQueuedOperations s =
     (case getData ''offline_queue'' s of
        None \<Rightarrow> []
      | Some (Queue queue) \<Rightarrow> queue
      | Some (CacheItem c) \<Rightarrow> [])"

definition clearQueuedOperations :: "'a storage \<Rightarrow> 'a storage" where
  "clearQueuedOperations s = removeData ''offline_queue'' s"

definition removeQueuedOperation :: "string \<Rightarrow> 'a storage \<Rightarrow> 'a storage" where
  "removeQueuedOperation operationId s =
     (case getData ''offline_queue'' s of
        None \<Rightarrow> storeData ''offline_queue'' (Queue (filter (\<lambda>op. q_id op \<noteq> operationId) [])) s
      | Some (Queue queue) \<Rightarrow>
          storeData ''offline_queue'' (Queue (filter (\<lambda>op. q_id op \<noteq> operationId) queue)) s
      | Some (CacheItem c) \<Rightarrow> s)"

section \<open>The remote service\<close>

text \<open>
  The functions of \<open>dbHelpers\<close> (imported from `./supabase`) each send one request to the
  hosted database, after adding the timestamps of the request to a row they insert or
  update, and throw when the reply carries an error. They are the remote service of the
  offline layer. A call is recorded by the name of the function and the arguments it is
  given; the reply is given by an oracle that sees the calls made so far, so that the same
  call may succeed once and fail later.
\<close>

datatype remote_call =
    CreateProject obj
  | UpdateProject string obj
  | DeleteProject string
  | CreateMilestone obj
  | UpdateMilestone string obj
  | CreateOutsourcing obj
  | UpdateOutsourcing string obj
  | CreatePayment obj
  | UpdatePayment string obj
  | GetProjects
  | GetMilestones "string option"

datatype error = RemoteError string

text \<open>
  \<open>mutation\<close> answers an insert, update or delete with the row the database returns (a
  delete returns nothing and the row of its reply is not used); \<open>selection\<close> answers a
  read with the rows.
\<close>

record remote =
  mutation :: "remote_call list \<Rightarrow> remote_call \<Rightarrow> error + obj"
  selection :: "remote_call list \<Rightarrow> remote_call \<Rightarrow> error + obj list"

section \<open>Process state\<close>

text \<open>
  \<open>isOnline\<close> and \<open>networkListeners\<close> are the module variables of offline.ts. A listener is
  a callback of the view layer, known here by a number; \<open>notified\<close> records each
  invocation with its argument and \<open>calls\<close> records the remote calls, in order. The store
  holds lists of rows as cached data.
\<close>

record world =
  isOnline :: bool
  networkListeners :: "nat list"
  store :: "obj list storage"
  calls :: "remote_call list"
  notified :: "(nat \<times> bool) list"

text \<open>The module as loaded: \<open>let isOnline = true; let networkListeners = []\<close>.\<close>

definition loaded :: "obj list storage \<Rightarrow> world" where
  "loaded s = \<lparr>isOnline = True, networkListeners = [], store = s, calls = [], notified = []\<rparr>"

text \<open>A restart of the process loads the module again over the store as it was left.\<close>

definition restart :: "world \<Rightarrow> world" where
  "restart w = loaded (store w)"

definition getNetworkStatus :: "world \<Rightarrow> bool" where
  "getNetworkStatus w = isOnline w"

definition dbHelpers :: "remote \<Rightarrow> remote_call \<Rightarrow> world \<Rightarrow> (error + obj) \<times> world" where
  "dbHelpers r c w = (mutation r (calls w) c, w\<lparr>calls := calls w @ [c]\<rparr>)"

definition dbHelpers_get :: "remote \<Rightarrow> remote_call \<Rightarrow> world \<Rightarrow> (error + obj list) \<times> world" where
  "dbHelpers_get r c w = (selection r (calls w) c, w\<lparr>calls := calls w @ [c]\<rparr>)"

section \<open>Sync engine\<close>

text \<open>\<open>await f; ...\<close> where the value of \<open>f\<close> is not used: an error ends the function.\<close>

definition awaited :: "(error + obj) \<times> world \<Rightarrow> (error + unit) \<times> world" where
  "awaited res = (case fst res of Inl e \<Rightarrow> Inl e | Inr row \<Rightarrow> Inr (), snd res)"

definition processQueuedOperation :: "remote \<Rightarrow> queued \<Rightarrow> world \<Rightarrow> (error + unit) \<times> world" where
  "processQueuedOperation r operation w =
     (let type = q_type operation; table = q_table operation;
          d = q_data operation; i = q_id operation
      in if table = ''projects'' then
           (if type = ''create'' then awaited (dbHelpers r (CreateProject d) w)
            else if type = ''update'' then awaited (dbHelpers r (UpdateProject i d) w)
            else if type = ''delete'' then awaited (dbHelpers r (DeleteProject i) w)
            else (Inr (), w))
         else if table = ''milestones'' then
           (if type = ''create'' then awaited (dbHelpers r (CreateMilestone d) w)
            else if type = ''update'' then awaited (dbHelpers r (UpdateMilestone i d) w)
            else (Inr (), w))
         else if table = ''outsourcing'' then
           (if type = ''create'' then awaited (dbHelpers r (CreateOutsourcing d) w)
            else if type = ''update'' then awaited (dbHelpers r (UpdateOutsourcing i d) w)
            else (Inr (), w))
         else if table = ''payments'' then
           (if type = ''create'' then awaited (dbHelpers r (CreatePayment d) w)
            else if type = ''update'' then awaited (dbHelpers r (UpdatePayment i d) w)
            else (Inr (), w))
         else (Inr (), w))"

text \<open>
  The loop of \<open>syncOfflineData\<close> over the operations it read at its start: an operation
  that is processed without error is removed by its id, an error is logged and the loop
  goes on.
\<close>

fun sync_loop :: "remote \<Rightarrow> queued list \<Rightarrow> world \<Rightarrow> world" where
  "sync_loop r [] w = w"
| "sync_loop r (operation # rest) w =
     (case processQueuedOperation r operation w of
        (Inr u, w') \<Rightarrow>
          sync_loop r rest (w'\<lparr>store := removeQueuedOperation (q_id operation) (store w')\<rparr>)
      | (Inl e, w') \<Rightarrow> sync_loop r rest w')"

definition syncOfflineData :: "remote \<Rightarrow> world \<Rightarrow> world" where
  "syncOfflineData r w =
     (if \<not> isOnline w then w
      else let queuedOperations = getQueuedOperations (store w)
           in sync_loop r queuedOperations w)"

section \<open>Network monitor\<close>

text \<open>
  \<open>addNetworkListener\<close> returns the closure that removes the listener again, here
  \<open>removeNetworkListener\<close>.
\<close>

definition addNetworkListener :: "nat \<Rightarrow> world \<Rightarrow> world" where
  "addNetworkListener listener w = w\<lparr>networkListeners := networkListeners w @ [listener]\<rparr>"

definition removeNetworkListener :: "nat \<Rightarrow> world \<Rightarrow> world" where
  "removeNetworkListener listener w =
     w\<lparr>networkListeners := filter (\<lambda>l. l \<noteq> listener) (networkListeners w)\<rparr>"

text \<open>\<open>networkListeners.forEach(listener => listener(isOnline))\<close>.\<close>

definition forEach_listener :: "world \<Rightarrow> world" where
  "forEach_listener w =
     w\<lparr>notified := notified w @ map (\<lambda>listener. (listener, isOnline w)) (networkListeners w)\<rparr>"

text \<open>
  The handler that \<open>initializeNetworkMonitoring\<close> installs on the web, for the events
  \<open>online\<close> and \<open>offline\<close>; \<open>navigator_onLine\<close> is what the browser reports when it runs.
  The drain it starts is not awaited in the source; here it runs to its end before the
  handler returns.
\<close>

definition updateOnlineStatus :: "remote \<Rightarrow> bool \<Rightarrow> world \<Rightarrow> world" where
  "updateOnlineStatus r navigator_onLine w =
     (let wasOnline = isOnline w;
          w1 = w\<lparr>isOnline := navigator_onLine\<rparr>
      in if wasOnline \<noteq> isOnline w1 then
           (let w2 = forEach_listener w1
            in if isOnline w2 then syncOfflineData r w2 else w2)
         else w1)"

text \<open>
  The listener installed on a device, for a state of NetInfo whose \<open>isConnected\<close> is a
  boolean or null: \<open>isOnline = state.isConnected ?? false\<close>.
\<close>

definition netInfoListener :: "remote \<Rightarrow> bool option \<Rightarrow> world \<Rightarrow> world" where
  "netInfoListener r isConnected w =
     (let wasOnline = isOnline w;
          w1 = w\<lparr>isOnline := (case isConnected of Some b \<Rightarrow> b | None \<Rightarrow> False)\<rparr>
      in if wasOnline \<noteq> isOnline w1 then
           (let w2 = forEach_listener w1
            in if isOnline w2 then syncOfflineData r w2 else w2)
         else w1)"

section \<open>Offline-aware operations\<close>

text \<open>
  Each operation runs at one time \<open>now\<close> (the source reads the clock several times
  within a call); \<open>toISOString\<close> renders a time as \<open>Date.prototype.toISOString\<close> does and
  \<open>random\<close> is the rendering of \<open>Math.random()\<close>. \<open>orEmpty\<close> is \<open>x || []\<close> for a list or
  null.
\<close>

definition orEmpty :: "'a list option \<Rightarrow> 'a list" where
  "orEmpty x = (case x of None \<Rightarrow> [] | Some xs \<Rightarrow> xs)"

definition createProject ::
  "remote \<Rightarrow> (int \<Rightarrow> string) \<Rightarrow> int \<Rightarrow> string \<Rightarrow> obj \<Rightarrow> world \<Rightarrow> (error + obj) \<times> world" where
  "createProject r toISOString now random projectData w =
     (if isOnline w then dbHelpers r (CreateProject projectData) w
      else
        let s1 = queueOperation now random
                   \<lparr>op_type = ''create'', op_table = ''projects'', op_data = projectData,
                    op_id = None\<rparr> (store w);
            tempProject = spread projectData
                   [(''id'', JStr (''temp_'' @ string_of_int now)),
                    (''created_at'', JStr (toISOString now)),
                    (''updated_at'', JStr (toISOString now))];
            got = getCachedData now ''projects'' s1;
            cachedProjects = orEmpty (fst got);
            s3 = cacheData now ''projects'' (tempProject # cachedProjects) None (snd got)
        in (Inr tempProject, w\<lparr>store := s3\<rparr>))"

definition updateProject ::
  "remote \<Rightarrow> (int \<Rightarrow> string) \<Rightarrow> int \<Rightarrow> string \<Rightarrow> string \<Rightarrow> obj \<Rightarrow> world
     \<Rightarrow> (error + obj option) \<times> world" where
  "updateProject r toISOString now random projectId updates w =
     (if isOnline w then
        (case dbHelpers r (UpdateProject projectId updates) w of
           (Inl e, w') \<Rightarrow> (Inl e, w')
         | (Inr row, w') \<Rightarrow> (Inr (Some row), w'))
      else
        let s1 = queueOperation now random
                   \<lparr>op_type = ''update'', op_table = ''projects'', op_data = updates,
                    op_id = Some projectId\<rparr> (store w);
            got = getCachedData now ''projects'' s1;
            cachedProjects = orEmpty (fst got);
            updatedProjects =
              map (\<lambda>project.
                     if get_prop project ''id'' = Some (JStr projectId)
                     then spread project (updates @ [(''updated_at'', JStr (toISOString now))])
                     else project) cachedProjects;
            s3 = cacheData now ''projects'' updatedProjects None (snd got)
        in (Inr (find (\<lambda>p. get_prop p ''id'' = Some (JStr projectId)) updatedProjects),
            w\<lparr>store := s3\<rparr>))"

definition getProjects :: "remote \<Rightarrow> int \<Rightarrow> world \<Rightarrow> obj list \<times> world" where
  "getProjects r now w =
     (if isOnline w then
        (case dbHelpers_get r GetProjects w of
           (Inr projects, w') \<Rightarrow>
             (projects, w'\<lparr>store := cacheData now ''projects'' projects None (store w')\<rparr>)
         | (Inl e, w') \<Rightarrow>
             (let got = getCachedData now ''projects'' (store w')
              in (orEmpty (fst got), w'\<lparr>store := snd got\<rparr>)))
      else
        (let got = getCachedData now ''projects'' (store w)
         in (orEmpty (fst got), w\<lparr>store := snd got\<rparr>)))"

definition createMilestone ::
  "remote \<Rightarrow> (int \<Rightarrow> string) \<Rightarrow> int \<Rightarrow> string \<Rightarrow> obj \<Rightarrow> world \<Rightarrow> (error + obj) \<times> world" where
  "createMilestone r toISOString now random milestoneData w =
     (if isOnline w then dbHelpers r (CreateMilestone milestoneData) w
      else
        let s1 = queueOperation now random
                   \<lparr>op_type = ''create'', op_table = ''milestones'', op_data = milestoneData,
                    op_id = None\<rparr> (store w);
            tempMilestone = spread milestoneData
                   [(''id'', JStr (''temp_'' @ string_of_int now)),
                    (''created_at'', JStr (toISOString now)),
                    (''updated_at'', JStr (toISOString now))];
            got = getCachedData now ''milestones'' s1;
            cachedMilestones = orEmpty (fst got);
            s3 = cacheData now ''milestones'' (tempMilestone # cachedMilestones) None (snd got)
        in (Inr tempMilestone, w\<lparr>store := s3\<rparr>))"

text \<open>\<open>projectId ? `milestones_${projectId}` : 'milestones'\<close>: an empty string is falsy.\<close>

definition milestones_cacheKey :: "string option \<Rightarrow> string" where
  "milestones_cacheKey projectId =
     (case projectId of
        Some p \<Rightarrow> if p \<noteq> [] then ''milestones_'' @ p else ''milestones''
      | None \<Rightarrow> ''milestones'')"

definition getMilestones :: "remote \<Rightarrow> int \<Rightarrow> string option \<Rightarrow> world \<Rightarrow> obj list \<times> world" where
  "getMilestones r now projectId w =
     (let cacheKey = milestones_cacheKey projectId
      in if isOnline w then
           (case dbHelpers_get r (GetMilestones projectId) w of
              (Inr milestones, w') \<Rightarrow>
                (milestones, w'\<lparr>store := cacheData now cacheKey milestones None (store w')\<rparr>)
            | (Inl e, w') \<Rightarrow>
                (let got = getCachedData now cacheKey (store w')
                 in (orEmpty (fst got), w'\<lparr>store := snd got\<rparr>)))
         else
           (let got = getCachedData now cacheKey (store w)
            in (orEmpty (fst got), w\<lparr>store := snd got\<rparr>)))"

section \<open>Notions used in the statements\<close>

text \<open>
  The remote call that the \<open>switch\<close> of \<open>processQueuedOperation\<close> reaches for a table and
  a type, if it reaches one.
\<close>

definition dispatch :: "queued \<Rightarrow> remote_call option" where
  "dispatch operation =
     (if q_table operation = ''projects'' \<and> q_type operation = ''create''
        then Some (CreateProject (q_data operation))
      else if q_table operation = ''projects'' \<and> q_type operation = ''update''
        then Some (UpdateProject (q_id operation) (q_data operation))
      else if q_table operation = ''projects'' \<and> q_type operation = ''delete''
        then Some (DeleteProject (q_id operation))
      else if q_table operation = ''milestones'' \<and> q_type operation = ''create''
        then Some (CreateMilestone (q_data operation))
      else if q_table operation = ''milestones'' \<and> q_type operation = ''update''
        then Some (UpdateMilestone (q_id operation) (q_data operation))
      else if q_table operation = ''outsourcing'' \<and> q_type operation = ''create''
        then Some (CreateOutsourcing (q_data operation))
      else if q_table operation = ''outsourcing'' \<and> q_type operation = ''update''
        then Some (UpdateOutsourcing (q_id operation) (q_data operation))
      else if q_table operation = ''payments'' \<and> q_type operation = ''create''
        then Some (CreatePayment (q_data operation))
      else if q_table operation = ''payments'' \<and> q_type operation = ''update''
        then Some (UpdatePayment (q_id operation) (q_data operation))
      else None)"

text \<open>
  For each operation of a pass that starts with the remote calls \<open>cs\<close> made: whether it is
  processed without error, that is, its remote call succeeds or it has none.
\<close>

fun outcomes :: "remote \<Rightarrow> queued list \<Rightarrow> remote_call list \<Rightarrow> bool list" where
  "outcomes r [] cs = []"
| "outcomes r (operation # rest) cs =
     (case dispatch operation of
        None \<Rightarrow> True # outcomes r rest cs
      | Some c \<Rightarrow> (\<not> isl (mutation r cs c)) # outcomes r rest (cs @ [c]))"

definition completed :: "remote \<Rightarrow> queued list \<Rightarrow> remote_call list \<Rightarrow> queued list" where
  "completed r ops cs = map fst (filter snd (zip ops (outcomes r ops cs)))"

definition failed :: "remote \<Rightarrow> queued list \<Rightarrow> remote_call list \<Rightarrow> queued list" where
  "failed r ops cs = map fst (filter (\<lambda>p. \<not> snd p) (zip ops (outcomes r ops cs)))"

text \<open>What \<open>queueOperation\<close> appends for an operation.\<close>

definition entry :: "int \<Rightarrow> string \<Rightarrow> operation \<Rightarrow> queued" where
  "entry now random operation =
     \<lparr>q_type = op_type operation, q_table = op_table operation, q_data = op_data operation,
      q_id = (case op_id operation of
                Some i \<Rightarrow> if i = [] then ''temp_'' @ string_of_int now @ ''_'' @ random else i
              | None \<Rightarrow> ''temp_'' @ string_of_int now @ ''_'' @ random),
      q_timestamp = now\<rparr>"

text \<open>A sequence of calls of \<open>queueOperation\<close>, each with its time and random number.\<close>

definition enqueue_all :: "(int \<times> string \<times> operation) list \<Rightarrow> 'a storage \<Rightarrow> 'a storage" where
  "enqueue_all reqs s = fold (\<lambda>(now, random, operation). queueOperation now random operation) reqs s"

text \<open>The entry under \<open>offline_queue\<close>, if there is one, is a list of operations.\<close>

definition queue_is_list :: "'a storage \<Rightarrow> bool" where
  "queue_is_list s = (case s ''offline_queue'' of Some (CacheItem c) \<Rightarrow> False | _ \<Rightarrow> True)"

text \<open>
  The rows that a reader of the cache sees under a key at time \<open>now\<close>: the data of an entry
  that has not expired, and no rows otherwise.
\<close>

definition cached_rows :: "int \<Rightarrow> string \<Rightarrow> 'a list storage \<Rightarrow> 'a list" where
  "cached_rows now key s =
     (case s (''cache_'' @ key) of
        Some (CacheItem c) \<Rightarrow> if now - timestamp c \<le> ttl c then data c else []
      | _ \<Rightarrow> [])"

text \<open>The optimistic record of a create made at time \<open>now\<close>.\<close>

definition tempRecord :: "(int \<Rightarrow> string) \<Rightarrow> int \<Rightarrow> obj \<Rightarrow> obj" where
  "tempRecord toISOString now d =
     spread d [(''id'', JStr (''temp_'' @ string_of_int now)),
               (''created_at'', JStr (toISOString now)),
               (''updated_at'', JStr (toISOString now))]"

section \<open>Sample data\<close>

text \<open>
  A queued operation on a row with one field, a remote service that rejects one call and
  accepts every other, and the module loaded over a store that holds a queue.
\<close>

definition sample_op :: "string \<Rightarrow> string \<Rightarrow> string \<Rightarrow> string \<Rightarrow> int \<Rightarrow> queued" where
  "sample_op ty tb nm i t =
     \<lparr>q_type = ty, q_table = tb, q_data = [(''name'', JStr nm)], q_id = i, q_timestamp = t\<rparr>"

definition rejecting :: "remote_call \<Rightarrow> remote" where
  "rejecting bad =
     \<lparr>mutation = (\<lambda>cs c. if c = bad then Inl (RemoteError ''rejected'') else Inr []),
      selection = (\<lambda>cs c. Inr [])\<rparr>"

definition world_with_queue :: "queued list \<Rightarrow> world" where
  "world_with_queue q = loaded (Map.empty(''offline_queue'' \<mapsto> Queue q))"

text \<open>The module over an empty store, after the connection has been lost.\<close>

definition offline_world :: world where
  "offline_world = (loaded Map.empty)\<lparr>isOnline := False\<rparr>"

definition sample_time :: "int \<Rightarrow> string" where
  "sample_time t = ''T'' @ string_of_int t"

text \<open>
  Two rows of a table, a remote service that answers every read with given rows, and one
  that cannot be reached.
\<close>

definition sample_rows :: "obj list" where
  "sample_rows = [[(''id'', JStr ''a''), (''name'', JStr ''A'')],
                  [(''id'', JStr ''b''), (''name'', JStr ''B'')]]"


definition unreachable :: remote where
  "unreachable = \<lparr>mutation = (\<lambda>cs c. Inl (RemoteError ''network'')),
                  selection = (\<lambda>cs c. Inl (RemoteError ''network''))\<rparr>"

section \<open>Cache manager: properties\<close>

text \<open>
  C2. A cache item \<open>{data, timestamp, ttl}\<close> under \<open>cache_<key>\<close> is returned while
  \<open>now - timestamp \<le> ttl\<close>, in particular one millisecond before \<open>timestamp + ttl\<close>; once
  \<open>now - timestamp > ttl\<close>, in particular one millisecond after \<open>timestamp + ttl\<close>, the read
  returns null and deletes the entry. A key with no entry reads as null. \<open>cacheData\<close>
  writes \<open>{data, timestamp: now, ttl}\<close> under \<open>cache_<key>\<close>, with 3600000 ms for a ttl
  that is not given.
\<close>

theorem getCachedData_ttl:
  "(s (''cache_'' @ key) = Some (CacheItem \<lparr>data = d, timestamp = ts, ttl = t\<rparr>) \<longrightarrow>
      (now - ts \<le> t \<longrightarrow> getCachedData now key s = (Some d, s)) \<and>
      (now - ts > t \<longrightarrow> getCachedData now key s = (None, s((''cache_'' @ key) := None))) \<and>
      getCachedData (ts + t - 1) key s = (Some d, s) \<and>
      getCachedData (ts + t + 1) key s = (None, s((''cache_'' @ key) := None)))
   \<and> (s (''cache_'' @ key) = None \<longrightarrow> getCachedData now key s = (None, s))
   \<and> cacheData now key d None s =
        s((''cache_'' @ key) \<mapsto> CacheItem \<lparr>data = d, timestamp = now, ttl = 3600000\<rparr>)
   \<and> cacheData now key d (Some t) s =
        s((''cache_'' @ key) \<mapsto> CacheItem \<lparr>data = d, timestamp = now, ttl = t\<rparr>)"
  by (simp add: getCachedData_def cacheData_def getData_def storeData_def removeData_def)

theorem getCachedData_ttl_witness:
  "getCachedData 1499 ''projects''
      (Map.empty(''cache_projects'' \<mapsto> CacheItem \<lparr>data = [1::nat, 2], timestamp = 1000, ttl = 500\<rparr>))
     = (Some [1, 2], Map.empty(''cache_projects'' \<mapsto> CacheItem \<lparr>data = [1, 2], timestamp = 1000, ttl = 500\<rparr>))
   \<and> getCachedData 1501 ''projects''
      (Map.empty(''cache_projects'' \<mapsto> CacheItem \<lparr>data = [1::nat, 2], timestamp = 1000, ttl = 500\<rparr>))
     = (None, Map.empty)
   \<and> getCachedData 1501 ''projects'' (Map.empty :: nat list storage) = (None, Map.empty)"
  using getCachedData_ttl [of "Map.empty(''cache_projects'' \<mapsto> CacheItem \<lparr>data = [1::nat, 2], timestamp = 1000, ttl = 500\<rparr>)"
       "''projects''" "[1, 2]" 1000 500 1499]
    getCachedData_ttl [of "Map.empty :: nat list storage" "''projects''" "[1, 2]" 1000 500 1501]
  by simp

section \<open>Sync engine: lemmas\<close>

lemma process_dispatch:
  "processQueuedOperation r operation w =
     (case dispatch operation of
        None \<Rightarrow> (Inr (), w)
      | Some c \<Rightarrow> (case mutation r (calls w) c of Inl e \<Rightarrow> Inl e | Inr row \<Rightarrow> Inr (),
                   w\<lparr>calls := calls w @ [c]\<rparr>))"
  by (simp add: processQueuedOperation_def dispatch_def awaited_def dbHelpers_def Let_def)

lemma getQueued_remove:
  "getQueuedOperations (removeQueuedOperation i s) = filter (\<lambda>op. q_id op \<noteq> i) (getQueuedOperations s)"
  by (simp add: getQueuedOperations_def removeQueuedOperation_def getData_def storeData_def
      split: option.splits stored.splits)

lemma sync_loop_calls:
  "calls (sync_loop r ops w) = calls w @ List.map_filter dispatch ops"
  by (induction ops arbitrary: w)
     (auto simp: process_dispatch List.map_filter_simps split: option.splits sum.splits)

lemma sync_loop_frame:
  "isOnline (sync_loop r ops w) = isOnline w \<and>
   networkListeners (sync_loop r ops w) = networkListeners w \<and>
   notified (sync_loop r ops w) = notified w"
  by (induction ops arbitrary: w)
     (auto simp: process_dispatch split: option.splits sum.splits)

lemma completed_Nil [simp]: "completed r [] cs = []"
  by (simp add: completed_def)

lemma completed_Cons:
  "completed r (operation # rest) cs =
     (case dispatch operation of
        None \<Rightarrow> operation # completed r rest cs
      | Some c \<Rightarrow> if isl (mutation r cs c) then completed r rest (cs @ [c])
                  else operation # completed r rest (cs @ [c]))"
  by (simp add: completed_def split: option.splits)

lemma failed_Nil [simp]: "failed r [] cs = []"
  by (simp add: failed_def)


lemma sync_loop_queue:
  "getQueuedOperations (store (sync_loop r ops w)) =
     filter (\<lambda>op. q_id op \<notin> q_id ` set (completed r ops (calls w))) (getQueuedOperations (store w))"
proof (induction ops arbitrary: w)
  case Nil
  show ?case by simp
next
  case (Cons operation rest)
  show ?case
  proof (cases "dispatch operation")
    case None
    then show ?thesis
      by (auto simp: process_dispatch completed_Cons Cons.IH getQueued_remove intro!: filter_cong)
  next
    case (Some c)
    show ?thesis
    proof (cases "mutation r (calls w) c")
      case (Inl e)
      with Some show ?thesis
        by (simp add: process_dispatch completed_Cons Cons.IH)
    next
      case (Inr row)
      with Some show ?thesis
        by (auto simp: process_dispatch completed_Cons Cons.IH getQueued_remove intro!: filter_cong)
    qed
  qed
qed





lemma map_filter_app:
  "List.map_filter f (xs @ ys) = List.map_filter f xs @ List.map_filter f ys"
  by (simp add: List.map_filter_def)

lemma length_outcomes [simp]: "length (outcomes r ops cs) = length ops"
  by (induction ops arbitrary: cs) (auto split: option.splits)

lemma sync_loop_append:
  "sync_loop r (xs @ ys) w = sync_loop r ys (sync_loop r xs w)"
  by (induction xs arbitrary: w) (auto split: prod.splits sum.splits)

lemma outcomes_append:
  "outcomes r (xs @ ys) cs = outcomes r xs cs @ outcomes r ys (cs @ List.map_filter dispatch xs)"
  by (induction xs arbitrary: cs) (auto split: option.splits)

lemma completed_append:
  "completed r (xs @ ys) cs = completed r xs cs @ completed r ys (cs @ List.map_filter dispatch xs)"
  by (simp add: completed_def outcomes_append)

lemma no_branch_iff:
  "dispatch operation = None \<longleftrightarrow>
     (q_type operation = ''delete'' \<and> q_table operation \<in> {''milestones'', ''outsourcing'', ''payments''})
     \<or> q_table operation \<notin> {''projects'', ''milestones'', ''outsourcing'', ''payments''}
     \<or> q_type operation \<notin> {''create'', ''update'', ''delete''}"
  by (auto simp: dispatch_def)

lemmas sample_defs = world_with_queue_def loaded_def sample_op_def rejecting_def
  getQueuedOperations_def getData_def

section \<open>Sync engine: properties\<close>




text \<open>
  C3. An online drain pass makes its remote calls in the order of the persisted list: the
  calls it adds are those of the queued operations, in queue order. So for two operations
  \<open>a\<close> before \<open>b\<close> in the queue that both have a remote call, such as a create and a later
  update for the same temporary id, the call of \<open>a\<close> is made before the call of \<open>b\<close>. The
  persisted list is in enqueue order: two calls of \<open>queueOperation\<close> append their
  operations in the order of the calls.
\<close>

theorem drain_order:
  "(isOnline w \<longrightarrow>
      calls (syncOfflineData r w) =
        calls w @ List.map_filter dispatch (getQueuedOperations (store w)))
   \<and> (isOnline w \<and> getQueuedOperations (store w) = pre @ a # mid @ b # post \<and>
       dispatch a = Some ca \<and> dispatch b = Some cb \<longrightarrow>
      calls (syncOfflineData r w) =
        calls w @ List.map_filter dispatch pre @ ca # List.map_filter dispatch mid
                @ cb # List.map_filter dispatch post)
   \<and> (queue_is_list s \<longrightarrow>
      getQueuedOperations (queueOperation n2 r2 o2 (queueOperation n1 r1 o1 s)) =
        getQueuedOperations s @ [entry n1 r1 o1, entry n2 r2 o2])"
proof -
  have c: "calls (syncOfflineData r w) =
           calls w @ List.map_filter dispatch (getQueuedOperations (store w))" if "isOnline w"
    using that by (simp add: syncOfflineData_def sync_loop_calls)
  have two: "calls (syncOfflineData r w) =
        calls w @ List.map_filter dispatch pre @ ca # List.map_filter dispatch mid
                @ cb # List.map_filter dispatch post"
    if "isOnline w" "getQueuedOperations (store w) = pre @ a # mid @ b # post"
       "dispatch a = Some ca" "dispatch b = Some cb"
    using that by (simp add: c map_filter_app)
  have enq: "getQueuedOperations (queueOperation n2 r2 o2 (queueOperation n1 r1 o1 s)) =
        getQueuedOperations s @ [entry n1 r1 o1, entry n2 r2 o2]" if "queue_is_list s"
    using that
    by (auto simp: queue_is_list_def queueOperation_def getQueuedOperations_def getData_def
        storeData_def entry_def split: option.splits stored.splits)
  show ?thesis using c two enq by blast
qed

theorem drain_order_witness:
  "isOnline (world_with_queue
       [sample_op ''create'' ''projects'' ''A'' ''temp_1'' 1,
        sample_op ''update'' ''projects'' ''B'' ''temp_1'' 2])
   \<and> calls (syncOfflineData (rejecting GetProjects)
       (world_with_queue
         [sample_op ''create'' ''projects'' ''A'' ''temp_1'' 1,
          sample_op ''update'' ''projects'' ''B'' ''temp_1'' 2]))
       = [CreateProject [(''name'', JStr ''A'')], UpdateProject ''temp_1'' [(''name'', JStr ''B'')]]
   \<and> queue_is_list (Map.empty :: nat storage)
   \<and> getQueuedOperations
        (queueOperation 2 ''0.7''
           \<lparr>op_type = ''update'', op_table = ''projects'', op_data = [(''name'', JStr ''B'')],
            op_id = Some ''temp_1''\<rparr>
           (queueOperation 1 ''0.5''
              \<lparr>op_type = ''create'', op_table = ''projects'', op_data = [(''name'', JStr ''A'')],
               op_id = Some ''temp_1''\<rparr> (Map.empty :: nat storage)))
       = [sample_op ''create'' ''projects'' ''A'' ''temp_1'' 1,
          sample_op ''update'' ''projects'' ''B'' ''temp_1'' 2]"
  using drain_order
    [of "world_with_queue
         [sample_op ''create'' ''projects'' ''A'' ''temp_1'' 1,
          sample_op ''update'' ''projects'' ''B'' ''temp_1'' 2]"
        "rejecting GetProjects" "[]"
        "sample_op ''create'' ''projects'' ''A'' ''temp_1'' 1" "[]"
        "sample_op ''update'' ''projects'' ''B'' ''temp_1'' 2" "[]"
        "CreateProject [(''name'', JStr ''A'')]"
        "UpdateProject ''temp_1'' [(''name'', JStr ''B'')]"
        "Map.empty :: nat storage" 2 "''0.7''"
        "\<lparr>op_type = ''update'', op_table = ''projects'', op_data = [(''name'', JStr ''B'')],
            op_id = Some ''temp_1''\<rparr>"
        1 "''0.5''"
        "\<lparr>op_type = ''create'', op_table = ''projects'', op_data = [(''name'', JStr ''A'')],
               op_id = Some ''temp_1''\<rparr>"]
  by (simp add: sample_defs dispatch_def queue_is_list_def entry_def)

text \<open>
  C9. An operation whose table and type have no branch in the dispatch (a delete for
  milestones, outsourcing or payments, any type for a table other than the four known
  ones, a type other than create, update and delete) is processed without error and
  without a remote call: the state is as before. An online drain pass therefore removes it
  from the persisted queue.
\<close>

theorem unhandled_operation_discarded:
  assumes "(q_type operation = ''delete'' \<and>
              q_table operation \<in> {''milestones'', ''outsourcing'', ''payments''})
           \<or> q_table operation \<notin> {''projects'', ''milestones'', ''outsourcing'', ''payments''}
           \<or> q_type operation \<notin> {''create'', ''update'', ''delete''}"
  shows "processQueuedOperation r operation w = (Inr (), w)
       \<and> (isOnline w \<and> operation \<in> set (getQueuedOperations (store w)) \<longrightarrow>
            operation \<notin> set (getQueuedOperations (store (syncOfflineData r w))))"
proof -
  have none: "dispatch operation = None"
    using assms by (simp only: no_branch_iff)
  have p: "processQueuedOperation r operation w = (Inr (), w)"
    by (simp add: process_dispatch none)
  have gone: "operation \<notin> set (getQueuedOperations (store (syncOfflineData r w)))"
    if on: "isOnline w" and mem: "operation \<in> set (getQueuedOperations (store w))"
  proof -
    obtain pre post where split: "getQueuedOperations (store w) = pre @ operation # post"
      using mem by (meson split_list)
    have "operation \<in> set (completed r (getQueuedOperations (store w)) (calls w))"
      by (simp add: split completed_append completed_Cons none)
    then show ?thesis
      using on by (auto simp: syncOfflineData_def sync_loop_queue)
  qed
  show ?thesis using p gone by blast
qed

theorem unhandled_operation_discarded_witness:
  "q_type (sample_op ''delete'' ''milestones'' ''M'' ''m1'' 1) = ''delete''
   \<and> q_table (sample_op ''delete'' ''milestones'' ''M'' ''m1'' 1) = ''milestones''
   \<and> isOnline (world_with_queue [sample_op ''delete'' ''milestones'' ''M'' ''m1'' 1])
   \<and> sample_op ''delete'' ''milestones'' ''M'' ''m1'' 1
       \<in> set (getQueuedOperations (store
            (world_with_queue [sample_op ''delete'' ''milestones'' ''M'' ''m1'' 1])))
   \<and> processQueuedOperation (rejecting GetProjects)
        (sample_op ''delete'' ''milestones'' ''M'' ''m1'' 1)
        (world_with_queue [sample_op ''delete'' ''milestones'' ''M'' ''m1'' 1])
       = (Inr (), world_with_queue [sample_op ''delete'' ''milestones'' ''M'' ''m1'' 1])
   \<and> sample_op ''delete'' ''milestones'' ''M'' ''m1'' 1
       \<notin> set (getQueuedOperations (store (syncOfflineData (rejecting GetProjects)
            (world_with_queue [sample_op ''delete'' ''milestones'' ''M'' ''m1'' 1]))))"
  using unhandled_operation_discarded
    [of "sample_op ''delete'' ''milestones'' ''M'' ''m1'' 1" "rejecting GetProjects"
        "world_with_queue [sample_op ''delete'' ''milestones'' ''M'' ''m1'' 1]"]
  by (simp add: sample_defs)

text \<open>
  C10. \<open>removeQueuedOperation\<close> removes every queued operation with the given id. So when
  two queued operations \<open>a\<close> and, later, \<open>b\<close> have the same id and \<open>a\<close> is processed without
  error in an online drain pass, \<open>b\<close> is gone from the persisted queue as soon as \<open>a\<close> has
  been handled, before its own replay, and it is not in the queue after the pass, whether
  its own remote call succeeds or fails.
\<close>

theorem remove_by_id_removes_all:
  "getQueuedOperations (removeQueuedOperation i s) =
     filter (\<lambda>op. q_id op \<noteq> i) (getQueuedOperations s)
   \<and> (isOnline w \<and> getQueuedOperations (store w) = pre @ a # mid @ b # post \<and>
       q_id b = q_id a \<and> outcomes r (pre @ [a]) (calls w) ! length pre \<longrightarrow>
        b \<notin> set (getQueuedOperations (store (sync_loop r (pre @ [a]) w)))
      \<and> b \<notin> set (getQueuedOperations (store (syncOfflineData r w))))"
proof -
  have gone: "b \<notin> set (getQueuedOperations (store (sync_loop r (pre @ [a]) w)))
      \<and> b \<notin> set (getQueuedOperations (store (syncOfflineData r w)))"
    if on: "isOnline w" and q: "getQueuedOperations (store w) = pre @ a # mid @ b # post"
      and same: "q_id b = q_id a" and ok: "outcomes r (pre @ [a]) (calls w) ! length pre"
  proof -
    have "outcomes r [a] (calls w @ List.map_filter dispatch pre) = [True]"
      using ok by (simp add: outcomes_append nth_append split: option.splits)
    then have a1: "a \<in> set (completed r (pre @ [a]) (calls w))"
      by (simp add: completed_append) (simp add: completed_def)
    have "getQueuedOperations (store w) = (pre @ [a]) @ (mid @ b # post)"
      using q by simp
    then have a2: "a \<in> set (completed r (getQueuedOperations (store w)) (calls w))"
      using a1 by (simp only: completed_append set_append) simp
    show ?thesis
      using on same a1 a2 by (auto simp: syncOfflineData_def sync_loop_queue)
  qed
  show ?thesis using gone by (simp add: getQueued_remove)
qed

theorem remove_by_id_removes_all_witness:
  "isOnline (world_with_queue
       [sample_op ''update'' ''projects'' ''A'' ''p1'' 1,
        sample_op ''update'' ''projects'' ''B'' ''p1'' 2])
   \<and> isl (mutation (rejecting (UpdateProject ''p1'' [(''name'', JStr ''B'')]))
            [UpdateProject ''p1'' [(''name'', JStr ''A'')]]
            (UpdateProject ''p1'' [(''name'', JStr ''B'')]))
   \<and> sample_op ''update'' ''projects'' ''B'' ''p1'' 2
       \<notin> set (getQueuedOperations (store (syncOfflineData
            (rejecting (UpdateProject ''p1'' [(''name'', JStr ''B'')]))
            (world_with_queue
              [sample_op ''update'' ''projects'' ''A'' ''p1'' 1,
               sample_op ''update'' ''projects'' ''B'' ''p1'' 2]))))"
  using remove_by_id_removes_all
    [of "''p1''" "Map.empty :: nat storage"
        "world_with_queue
              [sample_op ''update'' ''projects'' ''A'' ''p1'' 1,
               sample_op ''update'' ''projects'' ''B'' ''p1'' 2]"
        "[]" "sample_op ''update'' ''projects'' ''A'' ''p1'' 1" "[]"
        "sample_op ''update'' ''projects'' ''B'' ''p1'' 2" "[]"
        "rejecting (UpdateProject ''p1'' [(''name'', JStr ''B'')])"]
  by (simp add: sample_defs dispatch_def)

section \<open>Mutation queue: properties\<close>

lemma queueOperation_queue:
  "queue_is_list s \<Longrightarrow>
   getQueuedOperations (queueOperation now random operation s) =
     getQueuedOperations s @ [entry now random operation]"
  by (auto simp: queue_is_list_def queueOperation_def getQueuedOperations_def getData_def
      storeData_def entry_def split: option.splits stored.splits)

lemma queueOperation_is_list:
  "queue_is_list s \<Longrightarrow> queue_is_list (queueOperation now random operation s)"
  by (auto simp: queue_is_list_def queueOperation_def getData_def storeData_def
      split: option.splits stored.splits)

lemma queueOperation_other:
  "k \<noteq> ''offline_queue'' \<Longrightarrow> queueOperation now random operation s k = s k"
  by (auto simp: queueOperation_def getData_def storeData_def Let_def
      split: option.splits stored.splits)

lemma enqueue_all_queue:
  "queue_is_list s \<Longrightarrow>
   getQueuedOperations (enqueue_all reqs s) =
     getQueuedOperations s @ map (\<lambda>(now, random, operation). entry now random operation) reqs"
  unfolding enqueue_all_def
proof (induction reqs arbitrary: s)
  case Nil
  show ?case by simp
next
  case (Cons req reqs)
  obtain now random operation where req: "req = (now, random, operation)"
    by (cases req) auto
  show ?case
    using Cons.prems
    by (simp add: req Cons.IH queueOperation_is_list queueOperation_queue)
qed

text \<open>
  C6. Starting from an empty queue (no entry under \<open>offline_queue\<close>, or the empty list), a
  sequence of calls of \<open>queueOperation\<close> followed by a restart of the process and a call of
  \<open>getQueuedOperations\<close> yields exactly the queued operations, in the order of the calls.
  Each has the type, table and data it was queued with, the time of the call as its
  timestamp, and as its id the id that was passed or, when none was passed,
  \<open>temp_<timestamp>_<random>\<close>; JavaScript's \<open>||\<close> takes an empty string for an id that was
  not passed. With nothing ever queued, the list is empty.
\<close>

theorem queue_roundtrip:
  "(s ''offline_queue'' = None \<or> s ''offline_queue'' = Some (Queue []) \<longrightarrow>
      getQueuedOperations (store (restart (w\<lparr>store := enqueue_all reqs s\<rparr>))) =
        map (\<lambda>(now, random, operation). entry now random operation) reqs)
   \<and> q_type (entry now random operation) = op_type operation
   \<and> q_table (entry now random operation) = op_table operation
   \<and> q_data (entry now random operation) = op_data operation
   \<and> q_timestamp (entry now random operation) = now
   \<and> (op_id operation = Some i \<and> i \<noteq> [] \<longrightarrow> q_id (entry now random operation) = i)
   \<and> (op_id operation = None \<or> op_id operation = Some [] \<longrightarrow>
        q_id (entry now random operation) = ''temp_'' @ string_of_int now @ ''_'' @ random)
   \<and> (s ''offline_queue'' = None \<longrightarrow> getQueuedOperations s = [])"
proof -
  have "getQueuedOperations (store (restart (w\<lparr>store := enqueue_all reqs s\<rparr>))) =
        map (\<lambda>(now, random, operation). entry now random operation) reqs"
    if "s ''offline_queue'' = None \<or> s ''offline_queue'' = Some (Queue [])"
  proof -
    have "queue_is_list s" and "getQueuedOperations s = []"
      using that by (auto simp: queue_is_list_def getQueuedOperations_def getData_def)
    then show ?thesis
      by (simp add: restart_def loaded_def enqueue_all_queue)
  qed
  moreover have "s ''offline_queue'' = None \<longrightarrow> getQueuedOperations s = []"
    by (simp add: getQueuedOperations_def getData_def)
  ultimately show ?thesis
    by (auto simp: entry_def)
qed

theorem queue_roundtrip_witness:
  "getQueuedOperations (store (restart ((loaded Map.empty)
      \<lparr>store := enqueue_all
         [(1, ''0.5'', \<lparr>op_type = ''create'', op_table = ''projects'',
                        op_data = [(''name'', JStr ''A'')], op_id = None\<rparr>),
          (2, ''0.7'', \<lparr>op_type = ''update'', op_table = ''projects'',
                        op_data = [(''name'', JStr ''B'')], op_id = Some ''p1''\<rparr>)]
         Map.empty\<rparr>)))
     = [sample_op ''create'' ''projects'' ''A'' ''temp_1_0.5'' 1,
        sample_op ''update'' ''projects'' ''B'' ''p1'' 2]
   \<and> getQueuedOperations (Map.empty :: obj list storage) = []"
  using queue_roundtrip
    [where s = "Map.empty" and w = "loaded Map.empty" and now = 1 and random = "''0.5''"
       and i = "''p1''"
       and operation = "\<lparr>op_type = ''update'', op_table = ''projects'',
                        op_data = [(''name'', JStr ''B'')], op_id = Some ''p1''\<rparr>"
       and reqs = "[(1, ''0.5'', \<lparr>op_type = ''create'', op_table = ''projects'',
                        op_data = [(''name'', JStr ''A'')], op_id = None\<rparr>),
          (2, ''0.7'', \<lparr>op_type = ''update'', op_table = ''projects'',
                        op_data = [(''name'', JStr ''B'')], op_id = Some ''p1''\<rparr>)]"]
  by (simp add: sample_op_def entry_def string_of_int_def string_of_nat.simps)

section \<open>Offline-aware operations: lemmas\<close>

lemma getQueuedOperations_cong:
  "s ''offline_queue'' = s' ''offline_queue'' \<Longrightarrow> getQueuedOperations s = getQueuedOperations s'"
  by (simp add: getQueuedOperations_def getData_def)

lemma fst_getCachedData:
  "fst (getCachedData now key s) =
     (case s (''cache_'' @ key) of
        Some (CacheItem c) \<Rightarrow> if now - timestamp c > ttl c then None else Some (data c)
      | _ \<Rightarrow> None)"
  by (simp add: getCachedData_def getData_def split: option.splits stored.splits)

lemma snd_getCachedData_other:
  "k \<noteq> ''cache_'' @ key \<Longrightarrow> snd (getCachedData now key s) k = s k"
  by (simp add: getCachedData_def getData_def removeData_def split: option.splits stored.splits)

lemma cacheData_apply:
  "cacheData now key d None s k =
     (if k = ''cache_'' @ key
      then Some (CacheItem \<lparr>data = d, timestamp = now, ttl = 3600000\<rparr>) else s k)"
  by (simp add: cacheData_def storeData_def)

lemma fst_getCachedData_queueOperation:
  "fst (getCachedData now key (queueOperation n rd operation s)) = fst (getCachedData now key s)"
  by (simp add: fst_getCachedData queueOperation_other)

lemma map_of_assign: "map_of (assign k v ob) = (map_of ob)(k \<mapsto> v)"
  by (induction ob) auto

lemma map_of_spread: "map_of (spread base ext) = map_of base ++ map_of (rev ext)"
  unfolding spread_def
proof (induction ext arbitrary: base)
  case Nil
  show ?case by simp
next
  case (Cons p ext)
  obtain k v where p: "p = (k, v)" by (cases p) auto
  have "map_of (fold (\<lambda>(k, v). assign k v) (p # ext) base) =
          (map_of base)(k \<mapsto> v) ++ map_of (rev ext)"
    by (simp only: p fold_Cons comp_apply prod.case Cons.IH map_of_assign)
  also have "\<dots> = map_of base ++ map_of (rev (p # ext))"
    by (rule ext) (simp add: p map_add_def split: option.splits)
  finally show ?case .
qed

lemma orEmpty_cached: "orEmpty (fst (getCachedData now key s)) = cached_rows now key s"
  by (auto simp: fst_getCachedData cached_rows_def orEmpty_def split: option.splits stored.splits)

lemma cached_rows_queueOperation:
  "cached_rows now key (queueOperation n rd operation s) = cached_rows now key s"
  by (simp add: cached_rows_def queueOperation_other)

lemma map_of_tempRecord:
  "map_of (tempRecord toISOString now d) =
     (map_of d)(''id'' \<mapsto> JStr (''temp_'' @ string_of_int now),
                ''created_at'' \<mapsto> JStr (toISOString now),
                ''updated_at'' \<mapsto> JStr (toISOString now))"
  by (simp add: tempRecord_def spread_def map_of_assign)

lemma createProject_offline_eq:
  "\<not> isOnline w \<Longrightarrow>
   createProject r toISOString now random projectData w =
     (Inr (tempRecord toISOString now projectData),
      w\<lparr>store := cacheData now ''projects''
          (tempRecord toISOString now projectData # cached_rows now ''projects'' (store w)) None
          (snd (getCachedData now ''projects''
             (queueOperation now random
                \<lparr>op_type = ''create'', op_table = ''projects'', op_data = projectData,
                 op_id = None\<rparr> (store w))))\<rparr>)"
  by (simp add: createProject_def Let_def cached_rows_queueOperation orEmpty_cached
      tempRecord_def)

lemma createMilestone_offline_eq:
  "\<not> isOnline w \<Longrightarrow>
   createMilestone r toISOString now random milestoneData w =
     (Inr (tempRecord toISOString now milestoneData),
      w\<lparr>store := cacheData now ''milestones''
          (tempRecord toISOString now milestoneData # cached_rows now ''milestones'' (store w)) None
          (snd (getCachedData now ''milestones''
             (queueOperation now random
                \<lparr>op_type = ''create'', op_table = ''milestones'', op_data = milestoneData,
                 op_id = None\<rparr> (store w))))\<rparr>)"
  by (simp add: createMilestone_def Let_def cached_rows_queueOperation orEmpty_cached
      tempRecord_def)

lemma getProjects_offline:
  "\<not> isOnline w \<Longrightarrow>
   getProjects r now w =
     (cached_rows now ''projects'' (store w), w\<lparr>store := snd (getCachedData now ''projects'' (store w))\<rparr>)"
  by (simp add: getProjects_def Let_def orEmpty_cached)

lemma getMilestones_offline:
  "\<not> isOnline w \<Longrightarrow>
   getMilestones r now projectId w =
     (cached_rows now (milestones_cacheKey projectId) (store w),
      w\<lparr>store := snd (getCachedData now (milestones_cacheKey projectId) (store w))\<rparr>)"
  by (simp add: getMilestones_def Let_def orEmpty_cached)

lemma cached_rows_cacheData:
  "cached_rows later key (cacheData now key rows None s) =
     (if later - now \<le> 3600000 then rows else [])"
  by (simp add: cached_rows_def cacheData_apply)

lemma queue_after_cache_write:
  "getQueuedOperations (cacheData now key rows None (snd (getCachedData now' key' s))) =
     getQueuedOperations s"
  by (rule getQueuedOperations_cong) (simp add: cacheData_apply snd_getCachedData_other)

lemma updateProject_offline_eq:
  "\<not> isOnline w \<Longrightarrow>
   snd (updateProject r toISOString now random projectId updates w) =
     w\<lparr>store := cacheData now ''projects''
          (map (\<lambda>project.
                  if get_prop project ''id'' = Some (JStr projectId)
                  then spread project (updates @ [(''updated_at'', JStr (toISOString now))])
                  else project) (cached_rows now ''projects'' (store w))) None
          (snd (getCachedData now ''projects''
             (queueOperation now random
                \<lparr>op_type = ''update'', op_table = ''projects'', op_data = updates,
                 op_id = Some projectId\<rparr> (store w))))\<rparr>"
  by (simp add: updateProject_def Let_def cached_rows_queueOperation orEmpty_cached)

lemmas facade_samples = offline_world_def loaded_def sample_time_def string_of_int_def
  string_of_nat.simps rejecting_def

section \<open>Offline-aware operations: properties\<close>

text \<open>
  C4, as amended. A create made while offline, for a project or a milestone, with the
  entry under \<open>offline_queue\<close> a list if there is one: a create operation with a generated
  id is appended to the queue; the call makes no remote call and returns the data extended
  with an id that starts with \<open>temp_\<close> and with \<open>created_at\<close> and \<open>updated_at\<close> of the time of
  the call; this record is put in front of the rows cached for the table and the list is
  cached again, for one hour, under the key of the table (\<open>cache_projects\<close>,
  \<open>cache_milestones\<close>). The next get for the whole table (\<open>getProjects()\<close>, or
  \<open>getMilestones()\<close> without a project id), made on the state the create left, still
  offline and no later than one hour after the create, returns the record at the head of
  its result. Nothing is stated about \<open>getMilestones(projectId)\<close> with a project id, which
  reads another key, \<open>cache_milestones_<projectId>\<close>.
\<close>

theorem create_offline:
  assumes "\<not> isOnline w" and "queue_is_list (store w)"
  shows "fst (createProject r toISOString now random d w) = Inr (tempRecord toISOString now d)
       \<and> map_of (tempRecord toISOString now d) =
           (map_of d)(''id'' \<mapsto> JStr (''temp_'' @ string_of_int now),
                      ''created_at'' \<mapsto> JStr (toISOString now),
                      ''updated_at'' \<mapsto> JStr (toISOString now))
       \<and> calls (snd (createProject r toISOString now random d w)) = calls w
       \<and> \<not> isOnline (snd (createProject r toISOString now random d w))
       \<and> getQueuedOperations (store (snd (createProject r toISOString now random d w))) =
           getQueuedOperations (store w) @
             [\<lparr>q_type = ''create'', q_table = ''projects'', q_data = d,
               q_id = ''temp_'' @ string_of_int now @ ''_'' @ random, q_timestamp = now\<rparr>]
       \<and> store (snd (createProject r toISOString now random d w)) ''cache_projects'' =
           Some (CacheItem
             \<lparr>data = tempRecord toISOString now d # cached_rows now ''projects'' (store w),
              timestamp = now, ttl = 3600000\<rparr>)
       \<and> (later - now \<le> 3600000 \<longrightarrow>
            fst (getProjects r' later (snd (createProject r toISOString now random d w))) =
              tempRecord toISOString now d # cached_rows now ''projects'' (store w))
       \<and> fst (createMilestone r toISOString now random d w) = Inr (tempRecord toISOString now d)
       \<and> calls (snd (createMilestone r toISOString now random d w)) = calls w
       \<and> \<not> isOnline (snd (createMilestone r toISOString now random d w))
       \<and> getQueuedOperations (store (snd (createMilestone r toISOString now random d w))) =
           getQueuedOperations (store w) @
             [\<lparr>q_type = ''create'', q_table = ''milestones'', q_data = d,
               q_id = ''temp_'' @ string_of_int now @ ''_'' @ random, q_timestamp = now\<rparr>]
       \<and> store (snd (createMilestone r toISOString now random d w)) ''cache_milestones'' =
           Some (CacheItem
             \<lparr>data = tempRecord toISOString now d # cached_rows now ''milestones'' (store w),
              timestamp = now, ttl = 3600000\<rparr>)
       \<and> (later - now \<le> 3600000 \<longrightarrow>
            fst (getMilestones r' later None (snd (createMilestone r toISOString now random d w))) =
              tempRecord toISOString now d # cached_rows now ''milestones'' (store w))"
proof -
  have q: "getQueuedOperations (queueOperation now random
              \<lparr>op_type = ''create'', op_table = tb, op_data = d, op_id = None\<rparr> (store w)) =
           getQueuedOperations (store w) @
             [\<lparr>q_type = ''create'', q_table = tb, q_data = d,
               q_id = ''temp_'' @ string_of_int now @ ''_'' @ random, q_timestamp = now\<rparr>]" for tb
    using assms(2) by (simp add: queueOperation_queue entry_def)
  have p: "fst (createProject r toISOString now random d w) = Inr (tempRecord toISOString now d)
       \<and> calls (snd (createProject r toISOString now random d w)) = calls w
       \<and> \<not> isOnline (snd (createProject r toISOString now random d w))
       \<and> getQueuedOperations (store (snd (createProject r toISOString now random d w))) =
           getQueuedOperations (store w) @
             [\<lparr>q_type = ''create'', q_table = ''projects'', q_data = d,
               q_id = ''temp_'' @ string_of_int now @ ''_'' @ random, q_timestamp = now\<rparr>]
       \<and> store (snd (createProject r toISOString now random d w)) ''cache_projects'' =
           Some (CacheItem
             \<lparr>data = tempRecord toISOString now d # cached_rows now ''projects'' (store w),
              timestamp = now, ttl = 3600000\<rparr>)
       \<and> (later - now \<le> 3600000 \<longrightarrow>
            fst (getProjects r' later (snd (createProject r toISOString now random d w))) =
              tempRecord toISOString now d # cached_rows now ''projects'' (store w))"
    using assms(1)
    by (simp add: createProject_offline_eq getProjects_offline cached_rows_cacheData
        queue_after_cache_write q cacheData_apply)
  have m: "fst (createMilestone r toISOString now random d w) = Inr (tempRecord toISOString now d)
       \<and> calls (snd (createMilestone r toISOString now random d w)) = calls w
       \<and> \<not> isOnline (snd (createMilestone r toISOString now random d w))
       \<and> getQueuedOperations (store (snd (createMilestone r toISOString now random d w))) =
           getQueuedOperations (store w) @
             [\<lparr>q_type = ''create'', q_table = ''milestones'', q_data = d,
               q_id = ''temp_'' @ string_of_int now @ ''_'' @ random, q_timestamp = now\<rparr>]
       \<and> store (snd (createMilestone r toISOString now random d w)) ''cache_milestones'' =
           Some (CacheItem
             \<lparr>data = tempRecord toISOString now d # cached_rows now ''milestones'' (store w),
              timestamp = now, ttl = 3600000\<rparr>)
       \<and> (later - now \<le> 3600000 \<longrightarrow>
            fst (getMilestones r' later None (snd (createMilestone r toISOString now random d w))) =
              tempRecord toISOString now d # cached_rows now ''milestones'' (store w))"
    using assms(1)
    by (simp add: createMilestone_offline_eq getMilestones_offline cached_rows_cacheData
        queue_after_cache_write q cacheData_apply milestones_cacheKey_def)
  show ?thesis
    using p m map_of_tempRecord [of toISOString now d] by simp
qed

theorem create_offline_witness:
  "\<not> isOnline offline_world \<and> queue_is_list (store offline_world)
   \<and> fst (createProject (rejecting GetProjects) sample_time 1000 ''0.5''
          [(''name'', JStr ''A'')] offline_world)
       = Inr [(''name'', JStr ''A''), (''id'', JStr ''temp_1000''),
              (''created_at'', JStr ''T1000''), (''updated_at'', JStr ''T1000'')]
   \<and> getQueuedOperations (store (snd (createProject (rejecting GetProjects) sample_time 1000
          ''0.5'' [(''name'', JStr ''A'')] offline_world)))
       = [sample_op ''create'' ''projects'' ''A'' ''temp_1000_0.5'' 1000]
   \<and> fst (getProjects (rejecting GetProjects) 3601000
          (snd (createProject (rejecting GetProjects) sample_time 1000 ''0.5''
             [(''name'', JStr ''A'')] offline_world)))
       = [[(''name'', JStr ''A''), (''id'', JStr ''temp_1000''),
           (''created_at'', JStr ''T1000''), (''updated_at'', JStr ''T1000'')]]"
  using create_offline
    [where w = offline_world and r = "rejecting GetProjects" and r' = "rejecting GetProjects"
       and toISOString = sample_time and now = 1000 and random = "''0.5''"
       and d = "[(''name'', JStr ''A'')]" and later = 3601000]
  by (simp add: facade_samples queue_is_list_def tempRecord_def spread_def cached_rows_def
      getQueuedOperations_def getData_def sample_op_def)

text \<open>
  C4 as stated fails for a get made later than the cache lives: a project is created
  offline at time 1000 and the projects are read, still offline, at time 3601001, one
  millisecond after the hour. The cached list has expired and the result is empty.
\<close>

theorem create_offline_counterexample:
  "\<not> isOnline offline_world
   \<and> fst (createProject (rejecting GetProjects) sample_time 1000 ''0.5''
          [(''name'', JStr ''A'')] offline_world)
       = Inr [(''name'', JStr ''A''), (''id'', JStr ''temp_1000''),
              (''created_at'', JStr ''T1000''), (''updated_at'', JStr ''T1000'')]
   \<and> \<not> isOnline (snd (createProject (rejecting GetProjects) sample_time 1000 ''0.5''
          [(''name'', JStr ''A'')] offline_world))
   \<and> fst (getProjects (rejecting GetProjects) 3601001
          (snd (createProject (rejecting GetProjects) sample_time 1000 ''0.5''
             [(''name'', JStr ''A'')] offline_world)))
       = []"
  by (simp add: facade_samples createProject_def getProjects_def queueOperation_def
      getCachedData_def cacheData_def getData_def storeData_def removeData_def orEmpty_def
      spread_def Let_def)



text \<open>
  C7. An update of a project made while offline, with a non-empty id and the entry under
  \<open>offline_queue\<close> a list if there is one: an update operation with this id is appended to
  the queue and no remote call is made. The rows cached for the table are cached again
  with each row whose id is the given one replaced by the row merged with the updates (the
  later value wins where a key occurs twice) and with \<open>updated_at\<close> set to the time of the
  call, and with every other row as it was.
\<close>

theorem update_offline:
  assumes "\<not> isOnline w" and "queue_is_list (store w)" and "projectId \<noteq> []"
  shows "getQueuedOperations (store (snd (updateProject r toISOString now random projectId updates w))) =
           getQueuedOperations (store w) @
             [\<lparr>q_type = ''update'', q_table = ''projects'', q_data = updates,
               q_id = projectId, q_timestamp = now\<rparr>]
       \<and> calls (snd (updateProject r toISOString now random projectId updates w)) = calls w
       \<and> store (snd (updateProject r toISOString now random projectId updates w)) ''cache_projects'' =
           Some (CacheItem
             \<lparr>data = map (\<lambda>project.
                            if get_prop project ''id'' = Some (JStr projectId)
                            then spread project (updates @ [(''updated_at'', JStr (toISOString now))])
                            else project) (cached_rows now ''projects'' (store w)),
              timestamp = now, ttl = 3600000\<rparr>)
       \<and> map_of (spread project (updates @ [(''updated_at'', JStr (toISOString now))])) =
           (map_of project ++ map_of (rev updates))(''updated_at'' \<mapsto> JStr (toISOString now))"
proof -
  have q: "getQueuedOperations (queueOperation now random
              \<lparr>op_type = ''update'', op_table = ''projects'', op_data = updates,
               op_id = Some projectId\<rparr> (store w)) =
           getQueuedOperations (store w) @
             [\<lparr>q_type = ''update'', q_table = ''projects'', q_data = updates,
               q_id = projectId, q_timestamp = now\<rparr>]"
    using assms(2,3) by (simp add: queueOperation_queue entry_def)
  have m: "map_of (spread project (updates @ [(''updated_at'', JStr (toISOString now))])) =
           (map_of project ++ map_of (rev updates))(''updated_at'' \<mapsto> JStr (toISOString now))"
    by (rule ext) (simp add: map_of_spread map_add_def split: option.splits)
  show ?thesis
    using assms(1) m
    by (simp add: updateProject_offline_eq queue_after_cache_write q cacheData_apply)
qed

theorem update_offline_witness:
  "\<not> isOnline ((loaded (Map.empty(''cache_projects'' \<mapsto>
        CacheItem \<lparr>data = sample_rows, timestamp = 0, ttl = 3600000\<rparr>)))\<lparr>isOnline := False\<rparr>)
   \<and> getQueuedOperations (store (snd (updateProject unreachable sample_time 1000 ''0.5'' ''b''
        [(''name'', JStr ''C'')]
        ((loaded (Map.empty(''cache_projects'' \<mapsto>
           CacheItem \<lparr>data = sample_rows, timestamp = 0, ttl = 3600000\<rparr>)))\<lparr>isOnline := False\<rparr>))))
       = [sample_op ''update'' ''projects'' ''C'' ''b'' 1000]
   \<and> store (snd (updateProject unreachable sample_time 1000 ''0.5'' ''b''
        [(''name'', JStr ''C'')]
        ((loaded (Map.empty(''cache_projects'' \<mapsto>
           CacheItem \<lparr>data = sample_rows, timestamp = 0, ttl = 3600000\<rparr>)))\<lparr>isOnline := False\<rparr>)))
        ''cache_projects''
       = Some (CacheItem
           \<lparr>data = [[(''id'', JStr ''a''), (''name'', JStr ''A'')],
                    [(''id'', JStr ''b''), (''name'', JStr ''C''), (''updated_at'', JStr ''T1000'')]],
            timestamp = 1000, ttl = 3600000\<rparr>)"
  using update_offline
    [where w = "(loaded (Map.empty(''cache_projects'' \<mapsto>
           CacheItem \<lparr>data = sample_rows, timestamp = 0, ttl = 3600000\<rparr>)))\<lparr>isOnline := False\<rparr>"
       and r = unreachable and toISOString = sample_time and now = 1000 and random = "''0.5''"
       and projectId = "''b''" and updates = "[(''name'', JStr ''C'')]"]
  by (simp add: loaded_def queue_is_list_def getQueuedOperations_def getData_def sample_op_def
      cached_rows_def sample_rows_def get_prop_def spread_def sample_time_def string_of_int_def
      string_of_nat.simps)

section \<open>Network monitor: properties\<close>

lemma syncOfflineData_online:
  "isOnline w \<Longrightarrow>
   calls (syncOfflineData r w) = calls w @ List.map_filter dispatch (getQueuedOperations (store w))
   \<and> isOnline (syncOfflineData r w) \<and> notified (syncOfflineData r w) = notified w"
  by (simp add: syncOfflineData_def sync_loop_calls sync_loop_frame)

text \<open>
  C8. On a connectivity event the handler compares the new state with \<open>isOnline\<close>. When they
  differ, every listener is invoked once, in order, with the new state (listeners are
  taken to return normally), and when the new state is online the drain runs: the handler
  leaves the state that \<open>syncOfflineData\<close> leaves, with a remote call for each queued
  operation that has one. When the new state is offline nothing is called and the store is
  as before. When the states are equal nothing changes: no listener is invoked and no drain
  runs. The handler of a device does the same with \<open>state.isConnected ?? false\<close> as the new
  state. Before any event, \<open>getNetworkStatus\<close> is true.
\<close>

theorem connectivity_event:
  "(navigator_onLine \<noteq> isOnline w \<longrightarrow>
      notified (updateOnlineStatus r navigator_onLine w) =
        notified w @ map (\<lambda>listener. (listener, navigator_onLine)) (networkListeners w)
      \<and> isOnline (updateOnlineStatus r navigator_onLine w) = navigator_onLine
      \<and> (navigator_onLine \<longrightarrow>
           updateOnlineStatus r navigator_onLine w =
             syncOfflineData r
               (w\<lparr>isOnline := True,
                  notified := notified w @ map (\<lambda>listener. (listener, True)) (networkListeners w)\<rparr>)
           \<and> calls (updateOnlineStatus r navigator_onLine w) =
               calls w @ List.map_filter dispatch (getQueuedOperations (store w)))
      \<and> (\<not> navigator_onLine \<longrightarrow>
           calls (updateOnlineStatus r navigator_onLine w) = calls w
           \<and> store (updateOnlineStatus r navigator_onLine w) = store w))
   \<and> (navigator_onLine = isOnline w \<longrightarrow> updateOnlineStatus r navigator_onLine w = w)
   \<and> netInfoListener r (Some connected) w = updateOnlineStatus r connected w
   \<and> netInfoListener r None w = updateOnlineStatus r False w
   \<and> getNetworkStatus (loaded s)"
proof -
  let ?up = "w\<lparr>isOnline := True,
                notified := notified w @ map (\<lambda>listener. (listener, True)) (networkListeners w)\<rparr>"
  let ?down = "w\<lparr>isOnline := False,
                notified := notified w @ map (\<lambda>listener. (listener, False)) (networkListeners w)\<rparr>"
  have drain: "calls (syncOfflineData r ?up) =
                 calls w @ List.map_filter dispatch (getQueuedOperations (store w))
               \<and> isOnline (syncOfflineData r ?up)
               \<and> notified (syncOfflineData r ?up) =
                   notified w @ map (\<lambda>listener. (listener, True)) (networkListeners w)"
    using syncOfflineData_online [of ?up r] by simp
  have web_up: "updateOnlineStatus r True w = syncOfflineData r ?up" if "\<not> isOnline w"
    using that by (simp add: updateOnlineStatus_def forEach_listener_def Let_def)
  have web_down: "updateOnlineStatus r False w = ?down" if "isOnline w"
    using that by (simp add: updateOnlineStatus_def forEach_listener_def Let_def)
  have web_same: "updateOnlineStatus r (isOnline w) w = w"
    by (simp add: updateOnlineStatus_def Let_def)
  have web: "notified (updateOnlineStatus r navigator_onLine w) =
        notified w @ map (\<lambda>listener. (listener, navigator_onLine)) (networkListeners w)
      \<and> isOnline (updateOnlineStatus r navigator_onLine w) = navigator_onLine
      \<and> (navigator_onLine \<longrightarrow>
           updateOnlineStatus r navigator_onLine w = syncOfflineData r ?up
           \<and> calls (updateOnlineStatus r navigator_onLine w) =
               calls w @ List.map_filter dispatch (getQueuedOperations (store w)))
      \<and> (\<not> navigator_onLine \<longrightarrow>
           calls (updateOnlineStatus r navigator_onLine w) = calls w
           \<and> store (updateOnlineStatus r navigator_onLine w) = store w)"
    if "navigator_onLine \<noteq> isOnline w"
  proof (cases navigator_onLine)
    case True
    then have "\<not> isOnline w" using that by simp
    then show ?thesis using True drain by (simp add: web_up)
  next
    case False
    then have "isOnline w" using that by simp
    then show ?thesis using False by (simp add: web_down)
  qed
  have dev: "netInfoListener r (Some connected) w = updateOnlineStatus r connected w
             \<and> netInfoListener r None w = updateOnlineStatus r False w"
    by (simp add: netInfoListener_def updateOnlineStatus_def)
  have start: "getNetworkStatus (loaded s)"
    by (simp add: getNetworkStatus_def loaded_def)
  show ?thesis
    using web web_same dev start by (simp only: simp_thms) blast
qed

theorem connectivity_event_witness:
  "\<not> isOnline (addNetworkListener 7 ((world_with_queue
        [sample_op ''create'' ''projects'' ''A'' ''temp_1'' 1])\<lparr>isOnline := False\<rparr>))
   \<and> notified (updateOnlineStatus (rejecting GetProjects) True
        (addNetworkListener 7 ((world_with_queue
           [sample_op ''create'' ''projects'' ''A'' ''temp_1'' 1])\<lparr>isOnline := False\<rparr>)))
       = [(7, True)]
   \<and> calls (updateOnlineStatus (rejecting GetProjects) True
        (addNetworkListener 7 ((world_with_queue
           [sample_op ''create'' ''projects'' ''A'' ''temp_1'' 1])\<lparr>isOnline := False\<rparr>)))
       = [CreateProject [(''name'', JStr ''A'')]]
   \<and> updateOnlineStatus (rejecting GetProjects) False
        (addNetworkListener 7 ((world_with_queue
           [sample_op ''create'' ''projects'' ''A'' ''temp_1'' 1])\<lparr>isOnline := False\<rparr>))
       = addNetworkListener 7 ((world_with_queue
           [sample_op ''create'' ''projects'' ''A'' ''temp_1'' 1])\<lparr>isOnline := False\<rparr>)
   \<and> getNetworkStatus (loaded Map.empty)"
  using connectivity_event
    [where w = "addNetworkListener 7 ((world_with_queue
           [sample_op ''create'' ''projects'' ''A'' ''temp_1'' 1])\<lparr>isOnline := False\<rparr>)"
       and r = "rejecting GetProjects" and navigator_onLine = True and connected = True
       and s = Map.empty]
    connectivity_event
    [where w = "addNetworkListener 7 ((world_with_queue
           [sample_op ''create'' ''projects'' ''A'' ''temp_1'' 1])\<lparr>isOnline := False\<rparr>)"
       and r = "rejecting GetProjects" and navigator_onLine = False and connected = True
       and s = Map.empty]
  by (auto simp: addNetworkListener_def sample_defs dispatch_def)

end
